theory Spec2Isabelle
  imports Main
begin

section \<open>Support tickets: the documents\<close>

text \<open>
  The ticket documents of \<^verbatim>\<open>models/Ticket.js\<close>. Object ids are modelled by their
  string form (the handlers compare ids through \<^verbatim>\<open>toString()\<close>), dates by
  milliseconds since the epoch. A path of a document may be absent (\<^verbatim>\<open>undefined\<close> or
  \<^verbatim>\<open>null\<close>); such a path is an \<open>option\<close>. The schema's enumerations are datatypes.
  The \<^verbatim>\<open>updatedAt\<close> stamp of tickets is not modelled.
\<close>

type_synonym oid = string
type_synonym time = int

datatype status = Open | InProgress | Resolved | Closed

datatype priority = Low | Medium | High | Urgent

text \<open>
  The exceptions that the code can meet: a schema validation failure, a \<^verbatim>\<open>TypeError\<close>
  of the language, a rejection by the database, by a socket or by the mail transport, and
  the \<^verbatim>\<open>Error\<close> in which \<^verbatim>\<open>createNotification\<close> wraps what it caught.
\<close>

datatype error = ValidationError | TypeError | DatabaseError | SocketError | MailError
  | CreateNotificationFailed error

record message =
  sender :: "oid option"
  message :: "string option"
  isAdmin :: bool
  createdAt :: time

record paymentDetails =
  d17 :: string
  boustaRIB :: string

record ticket =
  ticket_id :: oid
  order :: oid
  user :: oid
  subject :: "string option"
  description :: "string option"
  status :: status
  priority :: priority
  messages :: "message list"
  assignedStaff :: "oid option"
  closedAt :: "time option"
  paymentDetails :: "paymentDetails option"
  metadata :: "string \<rightharpoonup> time"
  ticket_createdAt :: time

subsection \<open>Strings\<close>

text \<open>
  \<^verbatim>\<open>String.prototype.toLowerCase\<close> on the letters \<^verbatim>\<open>A\<close> to \<^verbatim>\<open>Z\<close>, and
  \<^verbatim>\<open>String.prototype.includes\<close> as a search for the first position at which the
  needle starts. Characters other than \<^verbatim>\<open>A\<close> to \<^verbatim>\<open>Z\<close> are left as they are: the case
  mapping of characters outside ASCII is not modelled.
\<close>

definition toLowerCase_char :: "char \<Rightarrow> char" where
  "toLowerCase_char c =
     (let n = (of_char c :: nat) in if 65 \<le> n \<and> n \<le> 90 then char_of (n + 32) else c)"

definition toLowerCase :: "string \<Rightarrow> string" where
  "toLowerCase s = map toLowerCase_char s"

fun startsWith :: "string \<Rightarrow> string \<Rightarrow> bool" where
  "startsWith s [] = True"
| "startsWith [] (k # ks) = False"
| "startsWith (c # cs) (k # ks) = (c = k \<and> startsWith cs ks)"

fun str_includes :: "string \<Rightarrow> string \<Rightarrow> bool" where
  "str_includes [] k = (k = [])"
| "str_includes (c # cs) k = (startsWith (c # cs) k \<or> str_includes cs k)"


subsection \<open>The pre-save hook\<close>

text \<open>
  \<^verbatim>\<open>TicketSchema.pre('save')\<close>. The test of the filter over the messages reads
  \<^verbatim>\<open>msg.message.toLowerCase()\<close>, which throws a \<^verbatim>\<open>TypeError\<close> on a message whose
  text is absent.
\<close>

definition is_urgent_text :: "string \<Rightarrow> bool" where
  "is_urgent_text s =
     (str_includes (toLowerCase s) ''urgent'' \<or> str_includes (toLowerCase s) ''emergency'')"

fun urgentMessages :: "message list \<Rightarrow> error + message list" where
  "urgentMessages [] = Inr []"
| "urgentMessages (m # ms) =
     (case message m of
        None \<Rightarrow> Inl TypeError
      | Some s \<Rightarrow>
          (case urgentMessages ms of
             Inl e \<Rightarrow> Inl e
           | Inr r \<Rightarrow> Inr (if is_urgent_text s then m # r else r)))"

definition auto_close :: "time \<Rightarrow> ticket \<Rightarrow> ticket" where
  "auto_close now t =
     (if length (messages t) > 0 \<and> list_all isAdmin (messages t) \<and> status t \<noteq> Closed
      then t\<lparr>status := Closed, closedAt := Some now,
             metadata := (metadata t)(''resolutionTime'' \<mapsto> now)\<rparr>
      else t)"

definition pre_save :: "time \<Rightarrow> ticket \<Rightarrow> error + ticket" where
  "pre_save now t =
     (let t1 = auto_close now t in
      case urgentMessages (messages t1) of
        Inl e \<Rightarrow> Inl e
      | Inr um \<Rightarrow>
          Inr (if length um > 0 \<and> priority t1 \<noteq> Urgent then t1\<lparr>priority := Urgent\<rparr> else t1))"

subsection \<open>Validation and save\<close>

text \<open>
  \<^verbatim>\<open>save()\<close> validates the document against the schema and then runs the pre-save
  hook. The schema requires \<^verbatim>\<open>subject\<close>, \<^verbatim>\<open>description\<close> and, in every message,
  \<^verbatim>\<open>sender\<close> and \<^verbatim>\<open>message\<close>; a required string must be present and non-empty.
  The \<^verbatim>\<open>order\<close> and the \<^verbatim>\<open>user\<close> of a ticket are always present in this model, and
  its status and priority are always of the schema's enumerations. The \<^verbatim>\<open>trim\<close> of
  the string paths is not modelled.
\<close>

definition required_string :: "string option \<Rightarrow> bool" where
  "required_string s = (case s of None \<Rightarrow> False | Some v \<Rightarrow> v \<noteq> [])"

definition valid_message :: "message \<Rightarrow> bool" where
  "valid_message m = (sender m \<noteq> None \<and> required_string (message m))"

definition validate :: "ticket \<Rightarrow> bool" where
  "validate t =
     (required_string (subject t) \<and> required_string (description t)
      \<and> list_all valid_message (messages t))"

definition save :: "time \<Rightarrow> ticket \<Rightarrow> error + ticket" where
  "save now t = (if validate t then pre_save now t else Inl ValidationError)"


section \<open>Notifications\<close>

text \<open>
  \<^verbatim>\<open>models/Notification.js\<close>, \<^verbatim>\<open>models/User.js\<close>, \<^verbatim>\<open>services/webSocketService.js\<close>
  and \<^verbatim>\<open>services/notificationService.js\<close>. The state holds the collections, the map
  from user id to live socket, and what has left the process: the events emitted on
  sockets, the mails handed to the transport and the lines written by
  \<^verbatim>\<open>console.error\<close>. The environment holds what one request cannot control: the clock,
  the id given to a new document and whether the database, the socket and the mail
  transport accept what they are given. \<^verbatim>\<open>notificationService.js\<close> takes its
  \<^verbatim>\<open>webSocketService\<close> from \<^verbatim>\<open>require('../server')\<close> when the module is loaded; if
  \<^verbatim>\<open>server.js\<close> is itself being loaded at that moment, the name is bound to
  \<^verbatim>\<open>undefined\<close> and every use of it throws a \<^verbatim>\<open>TypeError\<close>. The field \<open>ws_bound\<close>
  says whether the name is bound to the service.
\<close>

record user_doc =
  user_id :: oid
  username :: string
  email :: string
  user_isAdmin :: bool

record notification =
  notification_id :: oid
  n_user :: oid
  n_ticket :: "oid option"
  n_type :: string
  n_message :: string
  isRead :: bool
  n_updatedAt :: time

record mail =
  mail_to :: string
  mail_subject :: string
  mail_html :: string

type_synonym socket = nat

record state =
  tickets :: "oid \<rightharpoonup> ticket"
  orders :: "oid \<rightharpoonup> oid"
  users :: "oid \<rightharpoonup> user_doc"
  notifications :: "notification list"
  userSockets :: "oid \<rightharpoonup> socket"
  emitted :: "(socket \<times> string \<times> notification) list"
  outbox :: "mail list"
  console :: "string list"

record env =
  clock :: time
  new_id :: oid
  create_ok :: bool
  ws_bound :: bool
  emit_ok :: bool
  sendMail_ok :: bool
  frontend_url :: string

definition console_error :: "string \<Rightarrow> state \<Rightarrow> state" where
  "console_error line st = st\<lparr>console := console st @ [line]\<rparr>"

definition notification_types :: "string list" where
  "notification_types =
     [''TICKET_CREATED'', ''TICKET_UPDATED'', ''TICKET_ASSIGNED'', ''TICKET_ESCALATED'',
      ''TICKET_CLOSED'', ''MESSAGE_RECEIVED'']"

definition getNotificationMessage :: "ticket \<Rightarrow> string \<Rightarrow> string" where
  "getNotificationMessage t ty =
     (case map_of
        [(''TICKET_CREATED'', ''Your ticket #'' @ ticket_id t @ '' has been created successfully.''),
         (''TICKET_UPDATED'', ''Your ticket #'' @ ticket_id t @ '' has been updated.''),
         (''TICKET_ASSIGNED'',
            ''Your ticket #'' @ ticket_id t @ '' has been assigned to a support agent.''),
         (''TICKET_ESCALATED'',
            ''Your ticket #'' @ ticket_id t @ '' has been escalated for urgent attention.''),
         (''TICKET_CLOSED'', ''Your ticket #'' @ ticket_id t @ '' has been closed.''),
         (''MESSAGE_RECEIVED'', ''You have a new message on ticket #'' @ ticket_id t @ ''.'')] ty
      of Some m \<Rightarrow> m | None \<Rightarrow> ''You have a ticket notification.'')"

definition getEmailSubject :: "string \<Rightarrow> string" where
  "getEmailSubject ty =
     (case map_of
        [(''TICKET_CREATED'', ''New Ticket Created''), (''TICKET_UPDATED'', ''Ticket Update''),
         (''TICKET_ASSIGNED'', ''Ticket Assigned''), (''TICKET_ESCALATED'', ''Ticket Escalated''),
         (''TICKET_CLOSED'', ''Ticket Closed''), (''MESSAGE_RECEIVED'', ''New Message Received'')] ty
      of Some m \<Rightarrow> m | None \<Rightarrow> ''Ticket Notification'')"

definition getEmailTemplate :: "env \<Rightarrow> user_doc \<Rightarrow> ticket \<Rightarrow> string \<Rightarrow> string" where
  \<comment> \<open>the template without its layout whitespace and style attribute\<close>
  "getEmailTemplate e u t ty =
     ''<div><h2>Ticket Notification</h2><p>Dear '' @ username u @ '',</p><p>''
       @ getNotificationMessage t ty @ ''</p><a href='' @ frontend_url e @ ''/tickets/''
       @ ticket_id t @ ''>View Ticket</a></div>''"

text \<open>
  \<^verbatim>\<open>Notification.createNotification\<close>: \<^verbatim>\<open>create\<close> validates the document (the type
  must be one of the enumeration, the message present) and inserts it; whatever it
  throws is wrapped in a new \<^verbatim>\<open>Error\<close> and thrown again.
\<close>

definition createNotification ::
  "env \<Rightarrow> oid \<Rightarrow> oid \<Rightarrow> string \<Rightarrow> string \<Rightarrow> state \<Rightarrow> (error + notification) \<times> state" where
  "createNotification e u tk ty msg st =
     (if ty \<notin> set notification_types \<or> msg = [] then (Inl (CreateNotificationFailed ValidationError), st)
      else if \<not> create_ok e then (Inl (CreateNotificationFailed DatabaseError), st)
      else
        (let n = \<lparr>notification_id = new_id e, n_user = u, n_ticket = Some tk, n_type = ty,
                   n_message = msg, isRead = False, n_updatedAt = clock e\<rparr>
         in (Inr n, st\<lparr>notifications := notifications st @ [n]\<rparr>)))"

text \<open>
  \<^verbatim>\<open>WebSocketService.broadcastNotification\<close>: emits on the user's socket when the map has
  one, and does nothing otherwise.
\<close>

definition broadcastNotification ::
  "env \<Rightarrow> oid \<Rightarrow> notification \<Rightarrow> state \<Rightarrow> (error + unit) \<times> state" where
  "broadcastNotification e userId n st =
     (case userSockets st userId of
        None \<Rightarrow> (Inr (), st)
      | Some userSocket \<Rightarrow>
          if emit_ok e
          then (Inr (), st\<lparr>emitted := emitted st @ [(userSocket, ''new_notification'', n)]\<rparr>)
          else (Inl SocketError, st))"

definition createInAppNotification ::
  "env \<Rightarrow> oid \<Rightarrow> oid \<Rightarrow> string \<Rightarrow> string \<Rightarrow> state \<Rightarrow> (error + notification) \<times> state" where
  "createInAppNotification e u tk ty msg st =
     (case createNotification e u tk ty msg st of
        (Inl err, st1) \<Rightarrow> (Inl err, console_error ''Error creating in-app notification:'' st1)
      | (Inr n, st1) \<Rightarrow>
          if \<not> ws_bound e
          then (Inl TypeError, console_error ''Error creating in-app notification:'' st1)
          else
            (case broadcastNotification e u n st1 of
               (Inl err, st2) \<Rightarrow>
                 (Inl err, console_error ''Error creating in-app notification:'' st2)
             | (Inr _, st2) \<Rightarrow> (Inr n, st2)))"

definition sendEmailNotification ::
  "env \<Rightarrow> user_doc \<Rightarrow> ticket \<Rightarrow> string \<Rightarrow> state \<Rightarrow> (error + unit) \<times> state" where
  "sendEmailNotification e u t ty st =
     (if sendMail_ok e
      then (Inr (), st\<lparr>outbox := outbox st @
              [\<lparr>mail_to = email u, mail_subject = getEmailSubject ty,
                mail_html = getEmailTemplate e u t ty\<rparr>]\<rparr>)
      else (Inr (), console_error ''Error sending email notification:'' st))"

text \<open>
  \<^verbatim>\<open>sendNotification\<close>: the whole body is inside one \<^verbatim>\<open>try\<close>; the \<^verbatim>\<open>catch\<close> writes a
  line and falls through, so the caller receives \<^verbatim>\<open>undefined\<close>. The user is what
  \<^verbatim>\<open>User.findById\<close> returned, \<^verbatim>\<open>null\<close> when there is no such user, and reading
  \<^verbatim>\<open>user._id\<close> then throws.
\<close>

definition sendNotification ::
  "env \<Rightarrow> user_doc option \<Rightarrow> ticket \<Rightarrow> string \<Rightarrow> state \<Rightarrow> (error + notification option) \<times> state"
  where
  "sendNotification e usr t ty st =
     (case usr of
        None \<Rightarrow> (Inr None, console_error ''Error sending notification:'' st)
      | Some u \<Rightarrow>
          (case createInAppNotification e (user_id u) (ticket_id t) ty
                  (getNotificationMessage t ty) st of
             (Inl err, st1) \<Rightarrow> (Inr None, console_error ''Error sending notification:'' st1)
           | (Inr n, st1) \<Rightarrow>
               (case sendEmailNotification e u t ty st1 of
                  (Inl err, st2) \<Rightarrow> (Inr None, console_error ''Error sending notification:'' st2)
                | (Inr _, st2) \<Rightarrow> (Inr (Some n), st2))))"

definition notifyTicketCreation ::
  "env \<Rightarrow> ticket \<Rightarrow> state \<Rightarrow> (error + notification option) \<times> state" where
  "notifyTicketCreation e t st = sendNotification e (users st (user t)) t ''TICKET_CREATED'' st"

definition notifyTicketUpdate ::
  "env \<Rightarrow> ticket \<Rightarrow> state \<Rightarrow> (error + notification option) \<times> state" where
  "notifyTicketUpdate e t st = sendNotification e (users st (user t)) t ''TICKET_UPDATED'' st"

section \<open>The ticket handlers\<close>

text \<open>
  The handlers of the ticket controller. A handler takes the authenticated user of the
  request, the request's parameters and the state, and returns the response with the
  new state. Queries on tickets, users and orders are taken to be answered by the
  database; its refusal is modelled for \<^verbatim>\<open>Notification.create\<close> only.
\<close>

record actor =
  actor_id :: oid
  actor_isAdmin :: bool

datatype body = Message string | TicketJson ticket | NotificationJson notification

datatype response = Response nat body

text \<open>
  The object literals that the handlers put into \<^verbatim>\<open>messages\<close> carry the keys
  \<^verbatim>\<open>sender\<close>, \<^verbatim>\<open>content\<close> and, for the escalation note, \<^verbatim>\<open>isSystemMessage\<close>. The
  message sub-schema has the paths \<^verbatim>\<open>sender\<close>, \<^verbatim>\<open>message\<close>, \<^verbatim>\<open>isAdmin\<close> and
  \<^verbatim>\<open>createdAt\<close>, and no option of the schema lifts the default strict mode: casting the
  literal to a sub-document keeps \<^verbatim>\<open>sender\<close>, fills the defaults of \<^verbatim>\<open>isAdmin\<close> and
  \<^verbatim>\<open>createdAt\<close>, and drops the two keys that are not paths. The text of the resulting
  message is absent.
\<close>

record pushed =
  pushed_sender :: "oid option"
  pushed_content :: "string option"
  pushed_isSystemMessage :: "bool option"

definition cast_message :: "time \<Rightarrow> pushed \<Rightarrow> message" where
  "cast_message now p =
     \<lparr>sender = pushed_sender p, message = None, isAdmin = False, createdAt = now\<rparr>"

definition truthy :: "string option \<Rightarrow> bool" where
  "truthy s = (case s of None \<Rightarrow> False | Some v \<Rightarrow> v \<noteq> [])"

definition new_Ticket :: "env \<Rightarrow> actor \<Rightarrow> oid \<Rightarrow> string option \<Rightarrow> ticket" where
  \<comment> \<open>the \<^verbatim>\<open>new Ticket({...})\<close> of \<^verbatim>\<open>createTicket\<close>, with the schema's defaults\<close>
  "new_Ticket e a orderId initialMessage =
     \<lparr>ticket_id = new_id e, order = orderId, user = actor_id a, subject = None,
      description = None, status = Open, priority = Medium,
      messages =
        [cast_message (clock e)
           \<lparr>pushed_sender = Some (actor_id a),
            pushed_content =
              (if truthy initialMessage then initialMessage else Some ''New ticket created''),
            pushed_isSystemMessage = None\<rparr>],
      assignedStaff = None, closedAt = None,
      paymentDetails = Some \<lparr>d17 = ''21572385'', boustaRIB = ''5359401743124212''\<rparr>,
      metadata = Map.empty, ticket_createdAt = clock e\<rparr>"

text \<open>
  Storing a ticket. A new document is inserted whole. For a document that was loaded,
  \<^verbatim>\<open>save()\<close> writes the paths that have been assigned or pushed to; \<^verbatim>\<open>metadata\<close> is of
  type \<^verbatim>\<open>Mixed\<close> and the pre-save hook changes it in place, without \<^verbatim>\<open>markModified\<close>,
  so that the stored \<^verbatim>\<open>metadata\<close> stays what it was when the document was loaded.
\<close>

definition put_ticket :: "ticket \<Rightarrow> state \<Rightarrow> state" where
  "put_ticket t st = st\<lparr>tickets := (tickets st)(ticket_id t \<mapsto> t)\<rparr>"

definition update_ticket :: "ticket \<Rightarrow> ticket \<Rightarrow> state \<Rightarrow> state" where
  "update_ticket loaded saved st =
     st\<lparr>tickets := (tickets st)(ticket_id saved \<mapsto> saved\<lparr>metadata := metadata loaded\<rparr>)\<rparr>"

text \<open>
  \<^verbatim>\<open>createTicket\<close>. \<^verbatim>\<open>Order.findById\<close> runs the hook \<^verbatim>\<open>OrderSchema.pre(/^find/)\<close>,
  which populates \<^verbatim>\<open>user\<close>: \<^verbatim>\<open>existingOrder.user\<close> is the user document, or \<^verbatim>\<open>null\<close>
  when there is no such user. The handler compares \<^verbatim>\<open>existingOrder.user.toString()\<close>
  with the id of the requesting user. On \<^verbatim>\<open>null\<close> the call throws; on a document it
  gives the rendering of the document, written here in outline, which begins with a
  brace. An object id is 24 hexadecimal digits.
\<close>

definition document_toString :: "user_doc \<Rightarrow> string" where
  "document_toString u =
     ''{ _id: '' @ user_id u @ '', username: '' @ username u @ '', email: '' @ email u @ '' }''"

definition is_object_id :: "string \<Rightarrow> bool" where
  "is_object_id s = (length s = 24 \<and> list_all (\<lambda>c. c \<in> set ''0123456789abcdef'') s)"

definition createTicket ::
  "env \<Rightarrow> actor \<Rightarrow> oid \<Rightarrow> string option \<Rightarrow> state \<Rightarrow> response \<times> state" where
  "createTicket e a orderId initialMessage st =
     (case orders st orderId of
        None \<Rightarrow> (Response 404 (Message ''Order not found''), st)
      | Some ownerId \<Rightarrow>
          (case users st ownerId of
             None \<Rightarrow> (Response 400 (Message ''Error creating ticket''), st)
           | Some populated \<Rightarrow>
               if document_toString populated \<noteq> actor_id a
               then (Response 404 (Message ''Order not found''), st)
               else
                 (case save (clock e) (new_Ticket e a orderId initialMessage) of
                    Inl err \<Rightarrow> (Response 400 (Message ''Error creating ticket''), st)
                  | Inr createdTicket \<Rightarrow>
                      (case notifyTicketCreation e createdTicket (put_ticket createdTicket st) of
                         (Inl err, st2) \<Rightarrow>
                           (Response 400 (Message ''Error creating ticket''), st2)
                       | (Inr _, st2) \<Rightarrow> (Response 201 (TicketJson createdTicket), st2)))))"

definition addTicketMessage_update :: "time \<Rightarrow> actor \<Rightarrow> string option \<Rightarrow> ticket \<Rightarrow> ticket" where
  \<comment> \<open>the push and the reopening, before \<^verbatim>\<open>save\<close>\<close>
  "addTicketMessage_update now a content t =
     (let t1 = t\<lparr>messages := messages t @
                  [cast_message now
                     \<lparr>pushed_sender = Some (actor_id a), pushed_content = content,
                      pushed_isSystemMessage = None\<rparr>]\<rparr>
      in if status t1 = Closed then t1\<lparr>status := InProgress\<rparr> else t1)"

definition addTicketMessage ::
  "env \<Rightarrow> actor \<Rightarrow> oid \<Rightarrow> string option \<Rightarrow> state \<Rightarrow> response \<times> state" where
  "addTicketMessage e a ticketId content st =
     (case tickets st ticketId of
        None \<Rightarrow> (Response 404 (Message ''Ticket not found''), st)
      | Some t \<Rightarrow>
          if user t \<noteq> actor_id a \<and> \<not> actor_isAdmin a
          then (Response 403 (Message ''Not authorized to message this ticket''), st)
          else
            (case save (clock e) (addTicketMessage_update (clock e) a content t) of
               Inl err \<Rightarrow> (Response 400 (Message ''Error adding message''), st)
             | Inr updatedTicket \<Rightarrow>
                 (case notifyTicketUpdate e updatedTicket (update_ticket t updatedTicket st) of
                    (Inl err, st2) \<Rightarrow> (Response 400 (Message ''Error adding message''), st2)
                  | (Inr _, st2) \<Rightarrow> (Response 200 (TicketJson updatedTicket), st2))))"

text \<open>
  \<^verbatim>\<open>updateTicketStatus\<close>. The requested status is a string of the request body: absent or
  empty it leaves the status as it is, one of \<^verbatim>\<open>validStatuses\<close> replaces it, anything else
  is refused. After the save the handler calls \<^verbatim>\<open>NotificationService.notifyTicketStatusUpdate\<close>;
  the service defines \<^verbatim>\<open>notifyTicketCreation\<close> and \<^verbatim>\<open>notifyTicketUpdate\<close> only, so the call
  throws a \<^verbatim>\<open>TypeError\<close> and the handler's \<^verbatim>\<open>catch\<close> answers 400, the ticket being saved
  already. The same holds for \<^verbatim>\<open>notifyTicketEscalation\<close> in \<^verbatim>\<open>escalateTicket\<close>.
\<close>

definition validStatuses :: "(string \<times> status) list" where
  "validStatuses =
     [(''Open'', Open), (''In Progress'', InProgress), (''Resolved'', Resolved),
      (''Closed'', Closed)]"

definition read_status :: "string option \<Rightarrow> status option" where
  "read_status s = (case s of None \<Rightarrow> None | Some v \<Rightarrow> map_of validStatuses v)"

definition updateTicketStatus_save :: "env \<Rightarrow> ticket \<Rightarrow> state \<Rightarrow> response \<times> state" where
  \<comment> \<open>from \<^verbatim>\<open>ticket.save()\<close> to the end of the handler\<close>
  "updateTicketStatus_save e t st =
     (case save (clock e) t of
        Inl err \<Rightarrow> (Response 400 (Message ''Error updating ticket''), st)
      | Inr updatedTicket \<Rightarrow>
          (Response 400 (Message ''Error updating ticket''), update_ticket t updatedTicket st))"

definition updateTicketStatus ::
  "env \<Rightarrow> actor \<Rightarrow> oid \<Rightarrow> string option \<Rightarrow> oid option \<Rightarrow> state \<Rightarrow> response \<times> state" where
  "updateTicketStatus e a ticketId status_req staff_req st =
     (case tickets st ticketId of
        None \<Rightarrow> (Response 404 (Message ''Ticket not found''), st)
      | Some t \<Rightarrow>
          if truthy status_req \<and> read_status status_req = None
          then (Response 400 (Message ''Invalid ticket status''), st)
          else
            (let t1 = t\<lparr>status := (case read_status status_req of
                                      Some v \<Rightarrow> v | None \<Rightarrow> status t)\<rparr>
             in case staff_req of
                  None \<Rightarrow> updateTicketStatus_save e t1 st
                | Some staff \<Rightarrow>
                    if truthy staff_req \<and> actor_isAdmin a
                    then (case users st staff of
                            None \<Rightarrow> (Response 404 (Message ''Staff member not found''), st)
                          | Some staffUser \<Rightarrow>
                              updateTicketStatus_save e (t1\<lparr>assignedStaff := Some staff\<rparr>) st)
                    else updateTicketStatus_save e t1 st))"

text \<open>
  \<^verbatim>\<open>escalateTicket\<close>. The user found by
  \<^verbatim>\<open>User.findOne({ role: 'Senior Support', isActive: true })\<close> is a parameter: the user
  schema has neither path, and what the query returns is left to the database.
\<close>

definition twentyFourHours :: int where
  "twentyFourHours = 24 * 60 * 60 * 1000"

definition escalate_update :: "time \<Rightarrow> oid option \<Rightarrow> ticket \<Rightarrow> ticket" where
  \<comment> \<open>the escalation logic, before \<^verbatim>\<open>save\<close>\<close>
  "escalate_update now seniorSupport t =
     (if now - ticket_createdAt t > twentyFourHours \<and> status t = Open
      then
        t\<lparr>priority := High, status := InProgress,
          assignedStaff := (case seniorSupport of Some u \<Rightarrow> Some u | None \<Rightarrow> assignedStaff t),
          messages := messages t @
            [cast_message now
               \<lparr>pushed_sender = None,
                pushed_content =
                  Some ''Ticket automatically escalated due to prolonged open status'',
                pushed_isSystemMessage = Some True\<rparr>]\<rparr>
      else t)"

definition escalateTicket :: "env \<Rightarrow> oid option \<Rightarrow> oid \<Rightarrow> state \<Rightarrow> response \<times> state" where
  "escalateTicket e seniorSupport ticketId st =
     (case tickets st ticketId of
        None \<Rightarrow> (Response 404 (Message ''Ticket not found''), st)
      | Some t \<Rightarrow>
          (case save (clock e) (escalate_update (clock e) seniorSupport t) of
             Inl err \<Rightarrow> (Response 400 (Message ''Error escalating ticket''), st)
           | Inr escalatedTicket \<Rightarrow>
               (Response 400 (Message ''Error escalating ticket''),
                update_ticket t escalatedTicket st)))"

section \<open>The notification handlers\<close>

text \<open>
  \<^verbatim>\<open>markNotificationAsRead\<close> calls \<^verbatim>\<open>findOneAndUpdate\<close> with the filter
  \<^verbatim>\<open>{ _id, user }\<close> and the update \<^verbatim>\<open>{ read: true }\<close>. The first document that passes the
  filter is updated and returned. The schema's flag is \<^verbatim>\<open>isRead\<close>; \<^verbatim>\<open>read\<close> is not a
  path of the schema and is dropped when the update is cast, so that the update moves the
  \<^verbatim>\<open>updatedAt\<close> stamp only.
\<close>

fun findOneAndUpdate ::
  "(notification \<Rightarrow> bool) \<Rightarrow> (notification \<Rightarrow> notification) \<Rightarrow> notification list
     \<Rightarrow> notification option \<times> notification list" where
  "findOneAndUpdate P f [] = (None, [])"
| "findOneAndUpdate P f (n # ns) =
     (if P n then (Some (f n), f n # ns)
      else (case findOneAndUpdate P f ns of (r, ns') \<Rightarrow> (r, n # ns')))"

definition markNotificationAsRead :: "env \<Rightarrow> actor \<Rightarrow> oid \<Rightarrow> state \<Rightarrow> response \<times> state" where
  "markNotificationAsRead e a notificationId st =
     (case findOneAndUpdate (\<lambda>n. notification_id n = notificationId \<and> n_user n = actor_id a)
             (\<lambda>n. n\<lparr>n_updatedAt := clock e\<rparr>) (notifications st) of
        (None, ns) \<Rightarrow> (Response 404 (Message ''No notification found with that ID''), st)
      | (Some n, ns) \<Rightarrow> (Response 200 (NotificationJson n), st\<lparr>notifications := ns\<rparr>))"

section \<open>Example values\<close>

definition example_message :: "oid \<Rightarrow> string \<Rightarrow> bool \<Rightarrow> message" where
  "example_message u s a = \<lparr>sender = Some u, message = Some s, isAdmin = a, createdAt = 0\<rparr>"

definition example_ticket :: "status \<Rightarrow> priority \<Rightarrow> message list \<Rightarrow> ticket" where
  "example_ticket st p ms =
     \<lparr>ticket_id = ''t1'', order = ''o1'', user = ''u1'', subject = Some ''Refund'',
      description = Some ''Order arrived broken'', status = st, priority = p, messages = ms,
      assignedStaff = None, closedAt = None, paymentDetails = None, metadata = Map.empty,
      ticket_createdAt = 0\<rparr>"

definition example_user :: user_doc where
  "example_user =
     \<lparr>user_id = ''u1'', username = ''alice'', email = ''alice@example.org'',
      user_isAdmin = False\<rparr>"

definition example_notification :: "oid \<Rightarrow> oid \<Rightarrow> notification" where
  "example_notification i u =
     \<lparr>notification_id = i, n_user = u, n_ticket = Some ''t1'', n_type = ''TICKET_UPDATED'',
      n_message = ''Your ticket #t1 has been updated.'', isRead = False, n_updatedAt = 0\<rparr>"

definition example_state :: "ticket \<Rightarrow> state" where
  "example_state t =
     \<lparr>tickets = [''t1'' \<mapsto> t], orders = [''o1'' \<mapsto> ''u1''], users = [''u1'' \<mapsto> example_user],
      notifications = [], userSockets = Map.empty, emitted = [], outbox = [], console = []\<rparr>"

definition example_env :: "bool \<Rightarrow> bool \<Rightarrow> bool \<Rightarrow> env" where
  "example_env db sock smtp =
     \<lparr>clock = 5000, new_id = ''n1'', create_ok = db, ws_bound = True, emit_ok = sock,
      sendMail_ok = smtp,
      frontend_url = ''https://shop.example.org''\<rparr>"

definition example_owner :: actor where
  "example_owner = \<lparr>actor_id = ''u1'', actor_isAdmin = False\<rparr>"

definition example_admin :: actor where
  "example_admin = \<lparr>actor_id = ''a1'', actor_isAdmin = True\<rparr>"

section \<open>Properties of the string search\<close>








section \<open>Properties of the pre-save hook\<close>

lemma urgentMessages_filter:
  "\<forall>m\<in>set ms. message m \<noteq> None \<Longrightarrow>
     urgentMessages ms = Inr (filter (\<lambda>m. is_urgent_text (the (message m))) ms)"
  by (induction ms) auto

lemma urgentMessages_absent:
  "\<exists>m\<in>set ms. message m = None \<Longrightarrow> urgentMessages ms = Inl TypeError"
proof (induction ms)
  case Nil
  then show ?case by simp
next
  case (Cons a ms)
  show ?case
  proof (cases "message a")
    case None
    then show ?thesis by simp
  next
    case (Some s)
    with Cons.prems have "\<exists>m\<in>set ms. message m = None" by auto
    then have "urgentMessages ms = Inl TypeError" by (rule Cons.IH)
    with Some show ?thesis by simp
  qed
qed

lemma auto_close_messages: "messages (auto_close now t) = messages t"
  by (simp add: auto_close_def)

lemma auto_close_priority: "priority (auto_close now t) = priority t"
  by (simp add: auto_close_def)

lemma pre_save_texts:
  assumes "\<forall>m\<in>set (messages t). message m \<noteq> None"
  shows "pre_save now t =
     Inr (if filter (\<lambda>m. is_urgent_text (the (message m))) (messages t) \<noteq> []
             \<and> priority t \<noteq> Urgent
          then (auto_close now t)\<lparr>priority := Urgent\<rparr> else auto_close now t)"
  using assms
  by (simp add: pre_save_def Let_def auto_close_messages auto_close_priority
      urgentMessages_filter)

lemma validate_texts: "validate t \<Longrightarrow> \<forall>m\<in>set (messages t). message m \<noteq> None"
  by (fastforce simp: validate_def valid_message_def required_string_def list_all_iff
      split: option.splits)

text \<open>
  C2. A ticket with at least one message, all of them with \<^verbatim>\<open>isAdmin\<close> set, and a status
  other than Closed leaves the pre-save hook with status Closed and \<^verbatim>\<open>closedAt\<close> equal to
  the time of the save. The hook takes no actor and no operation: whoever saves, the rule
  applies. The hook returns for every ticket whose messages have a text, and
  \<^verbatim>\<open>save\<close> returns the same for every ticket that passes validation.
\<close>

theorem save_auto_close:
  assumes "messages t \<noteq> []" and "\<forall>m\<in>set (messages t). isAdmin m"
    and "status t \<noteq> Closed" and "\<forall>m\<in>set (messages t). message m \<noteq> None"
  shows "\<exists>t'. pre_save now t = Inr t' \<and> status t' = Closed \<and> closedAt t' = Some now
           \<and> (validate t \<longrightarrow> save now t = Inr t')"
proof -
  have closed: "status (auto_close now t) = Closed \<and> closedAt (auto_close now t) = Some now"
    using assms(1-3) by (simp add: auto_close_def list_all_iff)
  show ?thesis
    using closed by (simp add: pre_save_texts [OF assms(4)] save_def)
qed

theorem save_auto_close_witness:
  "\<exists>t'. save 5000 (example_ticket InProgress Low [example_message ''a1'' ''Done'' True]) = Inr t'
     \<and> status t' = Closed \<and> closedAt t' = Some 5000"
  using save_auto_close
    [of "example_ticket InProgress Low [example_message ''a1'' ''Done'' True]" 5000]
  by (auto simp add: example_ticket_def example_message_def validate_def valid_message_def
      required_string_def)



section \<open>Properties of the connection registry\<close>

text \<open>
  C8. For a user id that the map of sockets does not hold, \<^verbatim>\<open>broadcastNotification\<close>
  returns normally and leaves the whole state as it was: the map, the emitted events, the
  collections, the mails and the console. This holds whether or not a socket would have
  accepted the event. The function is total, so the call does not block.
\<close>

theorem broadcastNotification_unregistered:
  "userSockets st userId = None \<Longrightarrow> broadcastNotification e userId n st = (Inr (), st)"
  by (simp add: broadcastNotification_def)

theorem broadcastNotification_unregistered_witness:
  "userSockets (example_state (example_ticket Open Medium [])) ''u1'' = None
   \<and> broadcastNotification (example_env True False True) ''u1''
        (example_notification ''n1'' ''u1'') (example_state (example_ticket Open Medium []))
      = (Inr (), example_state (example_ticket Open Medium []))"
  using broadcastNotification_unregistered
    [of "example_state (example_ticket Open Medium [])" "''u1''" "example_env True False True"
        "example_notification ''n1'' ''u1''"]
  by (simp add: example_state_def)

section \<open>Properties of the notification service\<close>

lemma getNotificationMessage_nonempty: "getNotificationMessage t ty \<noteq> []"
  by (simp add: getNotificationMessage_def split: option.splits)

lemma createNotification_cases:
  "createNotification e u tk ty msg st =
     (if ty \<in> set notification_types \<and> msg \<noteq> [] \<and> create_ok e
      then (Inr \<lparr>notification_id = new_id e, n_user = u, n_ticket = Some tk, n_type = ty,
                  n_message = msg, isRead = False, n_updatedAt = clock e\<rparr>,
            st\<lparr>notifications := notifications st @
                 [\<lparr>notification_id = new_id e, n_user = u, n_ticket = Some tk, n_type = ty,
                   n_message = msg, isRead = False, n_updatedAt = clock e\<rparr>]\<rparr>)
      else (Inl (CreateNotificationFailed
                  (if ty \<in> set notification_types \<and> msg \<noteq> [] then DatabaseError
                   else ValidationError)), st))"
  by (simp add: createNotification_def Let_def)

lemma broadcastNotification_notifications:
  "notifications (snd (broadcastNotification e u n st)) = notifications st"
  by (simp add: broadcastNotification_def split: option.splits)

lemma console_error_notifications [simp]:
  "notifications (console_error l st) = notifications st"
  by (simp add: console_error_def)

lemma sendEmailNotification_notifications:
  "notifications (snd (sendEmailNotification e u t ty st)) = notifications st"
  by (simp add: sendEmailNotification_def)

lemma sendEmailNotification_returns: "fst (sendEmailNotification e u t ty st) = Inr ()"
  by (simp add: sendEmailNotification_def)

lemma createInAppNotification_notifications:
  "notifications (snd (createInAppNotification e u tk ty msg st)) =
     (if ty \<in> set notification_types \<and> msg \<noteq> [] \<and> create_ok e
      then notifications st @
             [\<lparr>notification_id = new_id e, n_user = u, n_ticket = Some tk, n_type = ty,
               n_message = msg, isRead = False, n_updatedAt = clock e\<rparr>]
      else notifications st)"
  by (simp add: createInAppNotification_def createNotification_cases
      broadcastNotification_def split: option.splits)

lemma sendNotification_notifications:
  "notifications (snd (sendNotification e usr t ty st)) =
     (case usr of
        None \<Rightarrow> notifications st
      | Some u \<Rightarrow>
          notifications (snd (createInAppNotification e (user_id u) (ticket_id t) ty
             (getNotificationMessage t ty) st)))"
proof (cases usr)
  case None
  then show ?thesis by (simp add: sendNotification_def)
next
  case (Some u)
  obtain r st1 where c: "createInAppNotification e (user_id u) (ticket_id t) ty
             (getNotificationMessage t ty) st = (r, st1)"
    by (cases "createInAppNotification e (user_id u) (ticket_id t) ty
             (getNotificationMessage t ty) st")
  show ?thesis
  proof (cases r)
    case (Inl err)
    with Some c show ?thesis by (simp add: sendNotification_def)
  next
    case (Inr n)
    obtain r2 st2 where m: "sendEmailNotification e u t ty st1 = (r2, st2)"
      by (cases "sendEmailNotification e u t ty st1")
    have "notifications st2 = notifications st1"
      using sendEmailNotification_notifications [of e u t ty st1] m by simp
    with Some c Inr m show ?thesis
      by (cases r2) (simp_all add: sendNotification_def)
  qed
qed

text \<open>
  C6, as amended. One call of \<^verbatim>\<open>sendNotification\<close> adds exactly one notification to
  the collection when the insertion succeeds, that is when the user exists, the type is
  one of the schema's enumeration and the database accepts the document; it adds none
  otherwise. In both cases the collection after the call is the same whether or not the
  push goes through (\<open>bound\<close>, \<open>push\<close>) and whether or not the mail transport accepts
  the mail (\<open>smtp\<close>).
\<close>

theorem sendNotification_persists_once:
  "notifications
     (snd (sendNotification (e\<lparr>ws_bound := bound, emit_ok := push, sendMail_ok := smtp\<rparr>)
             usr t ty st)) =
     (case usr of
        None \<Rightarrow> notifications st
      | Some u \<Rightarrow>
          if ty \<in> set notification_types \<and> create_ok e
          then notifications st @
                 [\<lparr>notification_id = new_id e, n_user = user_id u, n_ticket = Some (ticket_id t),
                   n_type = ty, n_message = getNotificationMessage t ty, isRead = False,
                   n_updatedAt = clock e\<rparr>]
          else notifications st)"
  by (cases usr)
     (simp_all add: sendNotification_notifications createInAppNotification_notifications
        getNotificationMessage_nonempty)

theorem sendNotification_persists_once_witness:
  "notifications (snd (sendNotification (example_env True False False) (Some example_user)
      (example_ticket Open Medium []) ''TICKET_CREATED''
      ((example_state (example_ticket Open Medium []))\<lparr>userSockets := [''u1'' \<mapsto> 7]\<rparr>))) =
     [\<lparr>notification_id = ''n1'', n_user = ''u1'', n_ticket = Some ''t1'',
       n_type = ''TICKET_CREATED'',
       n_message = ''Your ticket #t1 has been created successfully.'', isRead = False,
       n_updatedAt = 5000\<rparr>]"
  using sendNotification_persists_once
    [where e = "example_env True True True" and bound = True and push = False
       and smtp = False and usr = "Some example_user" and t = "example_ticket Open Medium []"
       and ty = "''TICKET_CREATED''"
       and st = "(example_state (example_ticket Open Medium []))
                   \<lparr>userSockets := [''u1'' \<mapsto> 7]\<rparr>"]
  by (simp add: example_env_def example_user_def example_ticket_def example_state_def
      notification_types_def getNotificationMessage_def)

text \<open>
  Against C6 as stated: a call with the \<^verbatim>\<open>null\<close> that \<^verbatim>\<open>User.findById\<close> returns for a
  user that does not exist, and a call during which the database refuses the insertion,
  both return with no notification in the collection.
\<close>

theorem sendNotification_persists_none_counterexample:
  "notifications (snd (sendNotification (example_env True True True) None
      (example_ticket Open Medium []) ''TICKET_CREATED''
      (example_state (example_ticket Open Medium [])))) = []
   \<and> notifications (snd (sendNotification (example_env False True True) (Some example_user)
      (example_ticket Open Medium []) ''TICKET_CREATED''
      (example_state (example_ticket Open Medium [])))) = []"
  by (simp add: sendNotification_notifications createInAppNotification_notifications
      example_env_def example_state_def)

lemma createInAppNotification_failure:
  assumes "ty \<notin> set notification_types \<or> msg = [] \<or> \<not> create_ok e"
  shows "\<exists>err. createInAppNotification e u tk ty msg st =
           (Inl (CreateNotificationFailed err),
            console_error ''Error creating in-app notification:'' st)"
  using assms by (auto simp add: createInAppNotification_def createNotification_cases)

lemma sendNotification_returns: "\<exists>r. fst (sendNotification e usr t ty st) = Inr r"
  by (auto simp add: sendNotification_def split: option.splits prod.splits sum.splits)

lemma console_error_console [simp]: "console (console_error l st) = console st @ [l]"
  by (simp add: console_error_def)

lemma sendNotification_persist_failure:
  assumes "ty \<notin> set notification_types \<or> \<not> create_ok e"
  shows "sendNotification e (Some u) t ty st =
           (Inr None,
            console_error ''Error sending notification:''
              (console_error ''Error creating in-app notification:'' st))"
proof -
  from assms obtain err where
    "createInAppNotification e (user_id u) (ticket_id t) ty (getNotificationMessage t ty) st =
       (Inl (CreateNotificationFailed err),
        console_error ''Error creating in-app notification:'' st)"
    using createInAppNotification_failure
      [of ty "getNotificationMessage t ty" e "user_id u" "ticket_id t" st]
    by blast
  then show ?thesis by (simp add: sendNotification_def)
qed

lemma sendNotification_mail_failure:
  assumes "ty \<in> set notification_types" and "create_ok e" and "ws_bound e" and "emit_ok e"
    and "\<not> sendMail_ok e"
  shows "\<exists>n st'. sendNotification e (Some u) t ty st = (Inr (Some n), st')
           \<and> last (console st') = ''Error sending email notification:''
           \<and> outbox st' = outbox st"
  using assms
  by (simp add: sendNotification_def createInAppNotification_def createNotification_cases
      getNotificationMessage_nonempty broadcastNotification_def sendEmailNotification_def
      console_error_def split: option.splits)

text \<open>
  C7, as amended. When the notification cannot be persisted, \<^verbatim>\<open>createInAppNotification\<close>
  ends in an error, which is how the failure reaches \<^verbatim>\<open>sendNotification\<close>; this one
  writes a second line to the console and returns \<^verbatim>\<open>undefined\<close>, not an error. When the
  mail transport fails after a push that went through, \<^verbatim>\<open>sendEmailNotification\<close>
  returns normally after writing its line, and \<^verbatim>\<open>sendNotification\<close> returns the
  notification. In every case
  \<^verbatim>\<open>sendNotification\<close> returns normally.
\<close>

theorem dispatch_error_handling:
  "(ty \<notin> set notification_types \<or> \<not> create_ok e \<longrightarrow>
      (\<exists>err. fst (createInAppNotification e (user_id u) (ticket_id t) ty
                 (getNotificationMessage t ty) st) = Inl err)
      \<and> sendNotification e (Some u) t ty st =
          (Inr None,
           console_error ''Error sending notification:''
             (console_error ''Error creating in-app notification:'' st)))
   \<and> (ty \<in> set notification_types \<and> create_ok e \<and> ws_bound e \<and> emit_ok e
        \<and> \<not> sendMail_ok e \<longrightarrow>
        fst (sendEmailNotification e u t ty st) = Inr ()
        \<and> (\<exists>n st'. sendNotification e (Some u) t ty st = (Inr (Some n), st')
              \<and> last (console st') = ''Error sending email notification:''))
   \<and> (\<exists>r. fst (sendNotification e usr t ty st) = Inr r)"
proof (intro conjI impI)
  assume a: "ty \<notin> set notification_types \<or> \<not> create_ok e"
  then show "\<exists>err. fst (createInAppNotification e (user_id u) (ticket_id t) ty
                 (getNotificationMessage t ty) st) = Inl err"
    using createInAppNotification_failure
      [of ty "getNotificationMessage t ty" e "user_id u" "ticket_id t" st]
    by auto
  from a show "sendNotification e (Some u) t ty st =
          (Inr None,
           console_error ''Error sending notification:''
             (console_error ''Error creating in-app notification:'' st))"
    by (rule sendNotification_persist_failure)
next
  assume "ty \<in> set notification_types \<and> create_ok e \<and> ws_bound e \<and> emit_ok e
        \<and> \<not> sendMail_ok e"
  then show "\<exists>n st'. sendNotification e (Some u) t ty st = (Inr (Some n), st')
              \<and> last (console st') = ''Error sending email notification:''"
    using sendNotification_mail_failure [of ty e u t st] by blast
next
  show "fst (sendEmailNotification e u t ty st) = Inr ()"
    by (rule sendEmailNotification_returns)
next
  show "\<exists>r. fst (sendNotification e usr t ty st) = Inr r"
    by (rule sendNotification_returns)
qed

theorem dispatch_error_handling_witness:
  "sendNotification (example_env False True True) (Some example_user)
      (example_ticket Open Medium []) ''TICKET_CREATED''
      (example_state (example_ticket Open Medium [])) =
     (Inr None,
      (example_state (example_ticket Open Medium []))
        \<lparr>console := [''Error creating in-app notification:'', ''Error sending notification:'']\<rparr>)
   \<and> (\<exists>n st'. sendNotification (example_env True True False) (Some example_user)
      (example_ticket Open Medium []) ''TICKET_CREATED''
      (example_state (example_ticket Open Medium [])) = (Inr (Some n), st')
      \<and> last (console st') = ''Error sending email notification:'')"
  using dispatch_error_handling
    [where e = "example_env False True True" and u = example_user
       and t = "example_ticket Open Medium []" and ty = "''TICKET_CREATED''"
       and st = "example_state (example_ticket Open Medium [])"]
    dispatch_error_handling
    [where e = "example_env True True False" and u = example_user
       and t = "example_ticket Open Medium []" and ty = "''TICKET_CREATED''"
       and st = "example_state (example_ticket Open Medium [])"]
  by (simp add: example_env_def notification_types_def console_error_def example_state_def)

text \<open>
  Against C7 as stated: the database refuses the insertion, and the caller of
  \<^verbatim>\<open>sendNotification\<close> receives \<^verbatim>\<open>undefined\<close> rather than an error.
\<close>

theorem sendNotification_persist_failure_counterexample:
  "\<not> create_ok (example_env False True True)
   \<and> fst (sendNotification (example_env False True True) (Some example_user)
      (example_ticket Open Medium []) ''TICKET_CREATED''
      (example_state (example_ticket Open Medium []))) = Inr None"
  by (simp add: sendNotification_persist_failure example_env_def)

section \<open>Properties of the notification handlers\<close>

lemma findOneAndUpdate_none:
  "\<not> (\<exists>n\<in>set ns. P n) \<Longrightarrow> findOneAndUpdate P f ns = (None, ns)"
  by (induction ns) auto

lemma findOneAndUpdate_some:
  "\<exists>n\<in>set ns. P n \<Longrightarrow> \<exists>n ns'. findOneAndUpdate P f ns = (Some (f n), ns') \<and> P n \<and> n \<in> set ns"
proof (induction ns)
  case Nil
  then show ?case by simp
next
  case (Cons a ns)
  show ?case
  proof (cases "P a")
    case True
    then show ?thesis by auto
  next
    case False
    with Cons.prems have "\<exists>n\<in>set ns. P n" by auto
    then obtain n ns' where "findOneAndUpdate P f ns = (Some (f n), ns')" "P n" "n \<in> set ns"
      using Cons.IH by blast
    with False show ?thesis by auto
  qed
qed

text \<open>
  C10. \<^verbatim>\<open>markNotificationAsRead\<close> answers 200 with a notification only when some
  notification has both the requested id and the requesting user, and the notification
  returned is such a one. When there is none, in particular when the id is that of
  another user's notification, the answer is 404 (not 403) and the state is unchanged.
\<close>

theorem markNotificationAsRead_owner_only:
  "(\<not> (\<exists>n\<in>set (notifications st). notification_id n = i \<and> n_user n = actor_id a) \<longrightarrow>
      markNotificationAsRead e a i st =
        (Response 404 (Message ''No notification found with that ID''), st))
   \<and> ((\<exists>n\<in>set (notifications st). notification_id n = i \<and> n_user n = actor_id a) \<longrightarrow>
      (\<exists>n. fst (markNotificationAsRead e a i st) = Response 200 (NotificationJson n)
            \<and> notification_id n = i \<and> n_user n = actor_id a))"
proof (intro conjI impI)
  assume "\<not> (\<exists>n\<in>set (notifications st). notification_id n = i \<and> n_user n = actor_id a)"
  then show "markNotificationAsRead e a i st =
        (Response 404 (Message ''No notification found with that ID''), st)"
    by (simp add: markNotificationAsRead_def
        findOneAndUpdate_none [of "notifications st"
          "\<lambda>n. notification_id n = i \<and> n_user n = actor_id a"])
next
  assume "\<exists>n\<in>set (notifications st). notification_id n = i \<and> n_user n = actor_id a"
  then obtain n ns' where
    "findOneAndUpdate (\<lambda>n. notification_id n = i \<and> n_user n = actor_id a)
       (\<lambda>n. n\<lparr>n_updatedAt := clock e\<rparr>) (notifications st) =
     (Some (n\<lparr>n_updatedAt := clock e\<rparr>), ns')"
    "notification_id n = i \<and> n_user n = actor_id a"
    using findOneAndUpdate_some
      [of "notifications st" "\<lambda>n. notification_id n = i \<and> n_user n = actor_id a"
          "\<lambda>n. n\<lparr>n_updatedAt := clock e\<rparr>"]
    by blast
  then show "\<exists>n. fst (markNotificationAsRead e a i st) = Response 200 (NotificationJson n)
            \<and> notification_id n = i \<and> n_user n = actor_id a"
    by (simp add: markNotificationAsRead_def)
qed

theorem markNotificationAsRead_owner_only_witness:
  "markNotificationAsRead (example_env True True True) example_owner ''n7''
     ((example_state (example_ticket Open Medium []))
        \<lparr>notifications := [example_notification ''n7'' ''u2'']\<rparr>) =
     (Response 404 (Message ''No notification found with that ID''),
      (example_state (example_ticket Open Medium []))
        \<lparr>notifications := [example_notification ''n7'' ''u2'']\<rparr>)
   \<and> (\<exists>n. fst (markNotificationAsRead (example_env True True True) example_owner ''n7''
     ((example_state (example_ticket Open Medium []))
        \<lparr>notifications := [example_notification ''n7'' ''u1'']\<rparr>)) =
       Response 200 (NotificationJson n) \<and> n_user n = ''u1'')"
  using markNotificationAsRead_owner_only
    [where e = "example_env True True True" and a = example_owner and i = "''n7''"
       and st = "(example_state (example_ticket Open Medium []))
        \<lparr>notifications := [example_notification ''n7'' ''u2'']\<rparr>"]
    markNotificationAsRead_owner_only
    [where e = "example_env True True True" and a = example_owner and i = "''n7''"
       and st = "(example_state (example_ticket Open Medium []))
        \<lparr>notifications := [example_notification ''n7'' ''u1'']\<rparr>"]
  by (auto simp add: example_owner_def example_notification_def example_state_def)

section \<open>Properties of the ticket handlers\<close>

lemma pre_save_paymentDetails:
  "pre_save now t = Inr t' \<Longrightarrow> paymentDetails t' = paymentDetails t"
  by (auto simp add: pre_save_def Let_def auto_close_def split: sum.splits if_splits)

lemma pre_save_closed_closedAt:
  "status t = Closed \<Longrightarrow> pre_save now t = Inr t' \<Longrightarrow>
     status t' = Closed \<and> closedAt t' = closedAt t"
  by (auto simp add: pre_save_def Let_def auto_close_def split: sum.splits if_splits)

text \<open>
  A message cast from a literal of the handlers has no text, so a ticket that holds one
  does not pass validation.
\<close>

lemma cast_message_invalid: "\<not> valid_message (cast_message now p)"
  by (simp add: valid_message_def cast_message_def required_string_def)

lemma new_Ticket_rejected: "save now (new_Ticket e a orderId initialMessage) = Inl ValidationError"
  by (simp add: save_def validate_def new_Ticket_def required_string_def)

text \<open>
  The rendering of a populated document is never an object id, so the comparison in
  \<^verbatim>\<open>createTicket\<close> fails for every user whose id is one: the handler answers 404 when
  the order's user exists and 400 when it does not, also to the owner of the order.
  Whatever the ids, \<^verbatim>\<open>createTicket\<close> never answers 201 and never changes the state.
\<close>

lemma document_toString_not_object_id:
  assumes "is_object_id s"
  shows "document_toString u \<noteq> s"
proof
  assume eq: "document_toString u = s"
  have "CHR ''{'' \<in> set (document_toString u)"
    by (simp add: document_toString_def)
  with eq have "CHR ''{'' \<in> set s" by simp
  moreover have "\<forall>c\<in>set s. c \<in> set ''0123456789abcdef''"
    using assms by (simp add: is_object_id_def list_all_iff)
  ultimately have "CHR ''{'' \<in> set ''0123456789abcdef''" by blast
  then show False by simp
qed

lemma createTicket_object_id:
  assumes "is_object_id (actor_id a)"
  shows "createTicket e a orderId initialMessage st =
     (case orders st orderId of
        None \<Rightarrow> (Response 404 (Message ''Order not found''), st)
      | Some ownerId \<Rightarrow>
          (case users st ownerId of
             None \<Rightarrow> (Response 400 (Message ''Error creating ticket''), st)
           | Some populated \<Rightarrow> (Response 404 (Message ''Order not found''), st)))"
  using document_toString_not_object_id [OF assms]
  by (simp add: createTicket_def split: option.splits)

lemma createTicket_never_stores:
  "snd (createTicket e a orderId initialMessage st) = st"
  by (simp add: createTicket_def new_Ticket_rejected split: option.splits)

lemma createTicket_never_created:
  "fst (createTicket e a orderId initialMessage st) \<noteq> Response 201 b"
  by (simp add: createTicket_def new_Ticket_rejected split: option.splits)

text \<open>
  C9, at a failing input. The user \<^verbatim>\<open>u1\<close>, to whom the order \<^verbatim>\<open>o1\<close> belongs, asks for a
  ticket on \<^verbatim>\<open>o1\<close> with the message "Need help". The handler answers 404 and the state
  is what it was: no ticket is created, and none carries the payment details.
\<close>

theorem createTicket_own_order_not_found:
  "orders (example_state (example_ticket Open Medium [])) ''o1'' = Some (actor_id example_owner)
   \<and> createTicket (example_env True True True) example_owner ''o1'' (Some ''Need help'')
        (example_state (example_ticket Open Medium [])) =
      (Response 404 (Message ''Order not found''), example_state (example_ticket Open Medium []))"
  by (simp add: createTicket_def example_state_def example_owner_def example_user_def
      document_toString_def)

text \<open>
  \<^verbatim>\<open>addTicketMessage\<close> never changes the state either; the document it would save is the
  loaded one with the status reset and one message more.
\<close>

lemma addTicketMessage_update_rejected:
  "save now' (addTicketMessage_update now a content t) = Inl ValidationError"
  by (simp add: save_def validate_def addTicketMessage_update_def Let_def cast_message_invalid)

lemma addTicketMessage_never_stores:
  "snd (addTicketMessage e a ticketId content st) = st"
  by (simp add: addTicketMessage_def addTicketMessage_update_rejected split: option.splits)

lemma addTicketMessage_update_frame:
  "addTicketMessage_update now a content t =
     t\<lparr>status := (if status t = Closed then InProgress else status t),
       messages := messages t @
         [\<lparr>sender = Some (actor_id a), message = None, isAdmin = False, createdAt = now\<rparr>]\<rparr>"
  by (simp add: addTicketMessage_update_def Let_def cast_message_def)

text \<open>
  C4, at a failing input. The owner of a Closed ticket, closed at time 100, posts
  "this is urgent". The handler reopens the ticket in memory, the save is refused
  because the pushed message has no \<^verbatim>\<open>message\<close>, and the handler answers 400; the stored
  ticket is still Closed.
\<close>

theorem addTicketMessage_closed_rejected:
  "addTicketMessage (example_env True True True) example_owner ''t1'' (Some ''this is urgent'')
     (example_state
        ((example_ticket Closed Medium [example_message ''u1'' ''Need help'' False])
           \<lparr>closedAt := Some 100\<rparr>)) =
   (Response 400 (Message ''Error adding message''),
    example_state
        ((example_ticket Closed Medium [example_message ''u1'' ''Need help'' False])
           \<lparr>closedAt := Some 100\<rparr>))"
  by (simp add: addTicketMessage_def addTicketMessage_update_rejected example_state_def
      example_owner_def example_ticket_def)

text \<open>
  C1, at a failing input. An administrator sets the status of an Open ticket to
  "Closed". The first rule of the pre-save hook is skipped, the status being Closed
  already, and the stored ticket is Closed with \<^verbatim>\<open>closedAt\<close> absent.
\<close>

theorem updateTicketStatus_closed_without_closedAt:
  "map_option status
     (tickets (snd (updateTicketStatus (example_env True True True) example_admin ''t1''
        (Some ''Closed'') None
        (example_state (example_ticket Open Medium [example_message ''u1'' ''Need help'' False]))))
      ''t1'') = Some Closed
   \<and> map_option closedAt
     (tickets (snd (updateTicketStatus (example_env True True True) example_admin ''t1''
        (Some ''Closed'') None
        (example_state (example_ticket Open Medium [example_message ''u1'' ''Need help'' False]))))
      ''t1'') = Some None"
  by code_simp

text \<open>
  The same for every stored ticket that passes validation: closing it through
  \<^verbatim>\<open>updateTicketStatus\<close> leaves \<^verbatim>\<open>closedAt\<close> as it was.
\<close>

lemma updateTicketStatus_close_keeps_closedAt:
  assumes "tickets st ticketId = Some t" and "validate t"
  shows "\<exists>t'. snd (updateTicketStatus e a ticketId (Some ''Closed'') None st)
             = update_ticket (t\<lparr>status := Closed\<rparr>) t' st
           \<and> status t' = Closed \<and> closedAt t' = closedAt t"
proof -
  have rs: "read_status (Some ''Closed'') = Some Closed"
    by (simp add: read_status_def validStatuses_def)
  have v: "validate (t\<lparr>status := Closed\<rparr>)"
    using assms(2) by (simp add: validate_def)
  then have texts: "\<forall>m\<in>set (messages (t\<lparr>status := Closed\<rparr>)). message m \<noteq> None"
    by (rule validate_texts)
  obtain t' where t': "pre_save (clock e) (t\<lparr>status := Closed\<rparr>) = Inr t'"
    using pre_save_texts [OF texts] by blast
  then have "status t' = Closed \<and> closedAt t' = closedAt t"
    using pre_save_closed_closedAt [of "t\<lparr>status := Closed\<rparr>" "clock e" t'] by simp
  moreover have "snd (updateTicketStatus e a ticketId (Some ''Closed'') None st)
      = update_ticket (t\<lparr>status := Closed\<rparr>) t' st"
    using assms(1) v t'
    by (simp add: updateTicketStatus_def rs truthy_def Let_def updateTicketStatus_save_def save_def)
  ultimately show ?thesis by blast
qed

text \<open>
  The update of \<^verbatim>\<open>escalateTicket\<close> is the identity unless the ticket is older than 24
  hours and Open. When both hold, the updated document has priority High, status In
  Progress, the user of the lookup as \<^verbatim>\<open>assignedStaff\<close>, and one message more, whose
  sender and text are absent: the save refuses it, the handler answers 400, and the
  state is what it was.
\<close>

lemma escalate_update_unmet:
  "\<not> (now - ticket_createdAt t > twentyFourHours \<and> status t = Open) \<Longrightarrow>
     escalate_update now seniorSupport t = t"
  by (auto simp add: escalate_update_def)

lemma escalate_update_met:
  "now - ticket_createdAt t > twentyFourHours \<and> status t = Open \<Longrightarrow>
     escalate_update now seniorSupport t =
       t\<lparr>priority := High, status := InProgress,
         assignedStaff := (case seniorSupport of Some u \<Rightarrow> Some u | None \<Rightarrow> assignedStaff t),
         messages := messages t @
           [\<lparr>sender = None, message = None, isAdmin = False, createdAt = now\<rparr>]\<rparr>"
  by (simp add: escalate_update_def cast_message_def)

lemma escalate_update_met_rejected:
  "now - ticket_createdAt t > twentyFourHours \<and> status t = Open \<Longrightarrow>
     save now' (escalate_update now seniorSupport t) = Inl ValidationError"
  by (simp add: escalate_update_met save_def validate_def valid_message_def)

lemma escalateTicket_met:
  assumes "tickets st ticketId = Some t"
    and "clock e - ticket_createdAt t > twentyFourHours \<and> status t = Open"
  shows "escalateTicket e seniorSupport ticketId st =
           (Response 400 (Message ''Error escalating ticket''), st)"
  using assms(1) escalate_update_met_rejected [OF assms(2)]
  by (simp add: escalateTicket_def)

lemma escalateTicket_unmet:
  assumes "tickets st ticketId = Some t"
    and "\<not> (clock e - ticket_createdAt t > twentyFourHours \<and> status t = Open)"
  shows "escalateTicket e seniorSupport ticketId st =
           (Response 400 (Message ''Error escalating ticket''),
            case save (clock e) t of Inl err \<Rightarrow> st | Inr t' \<Rightarrow> update_ticket t t' st)"
  using assms(1) escalate_update_unmet [OF assms(2)]
  by (simp add: escalateTicket_def split: sum.splits)

text \<open>
  C5, at a failing input. An Open ticket created at time 0 is escalated 25 hours later,
  the lookup having found the user \<^verbatim>\<open>s1\<close>. Both conditions hold, yet the handler answers
  400 and the state is what it was: the stored ticket is still Open with priority
  Medium, unassigned, and with its one message.
\<close>

theorem escalateTicket_escalation_rejected:
  "clock ((example_env True True True)\<lparr>clock := 90000000\<rparr>)
       - ticket_createdAt (example_ticket Open Medium [example_message ''u1'' ''Need help'' False])
     > twentyFourHours
   \<and> status (example_ticket Open Medium [example_message ''u1'' ''Need help'' False]) = Open
   \<and> escalateTicket ((example_env True True True)\<lparr>clock := 90000000\<rparr>) (Some ''s1'') ''t1''
        (example_state (example_ticket Open Medium [example_message ''u1'' ''Need help'' False]))
      = (Response 400 (Message ''Error escalating ticket''),
         example_state (example_ticket Open Medium [example_message ''u1'' ''Need help'' False]))"
  by (simp add: escalateTicket_def escalate_update_def cast_message_def save_def validate_def
      valid_message_def example_state_def example_ticket_def example_env_def
      twentyFourHours_def)

text \<open>
  When the conditions do not hold the ticket is saved as loaded, and the pre-save rules
  apply to it: an In Progress ticket, created 5 seconds ago, whose only message is an
  administrator's is stored Closed, and the answer of the handler is 400.
\<close>

lemma escalateTicket_unmet_not_noop:
  "\<not> (clock (example_env True True True)
        - ticket_createdAt (example_ticket InProgress Low [example_message ''a1'' ''Done'' True])
        > twentyFourHours
      \<and> status (example_ticket InProgress Low [example_message ''a1'' ''Done'' True]) = Open)
   \<and> map_option status (tickets (snd (escalateTicket (example_env True True True) None ''t1''
        (example_state (example_ticket InProgress Low [example_message ''a1'' ''Done'' True]))))
        ''t1'') = Some Closed
   \<and> fst (escalateTicket (example_env True True True) None ''t1''
        (example_state (example_ticket InProgress Low [example_message ''a1'' ''Done'' True])))
      = Response 400 (Message ''Error escalating ticket'')"
  by (simp add: escalateTicket_def escalate_update_def example_env_def example_state_def
      example_ticket_def example_message_def twentyFourHours_def save_def validate_def
      valid_message_def required_string_def pre_save_def auto_close_def update_ticket_def
      is_urgent_text_def toLowerCase_def toLowerCase_char_def Let_def)

end
